theory Spec2Isabelle
  imports Complex_Main "HOL-Library.Word"
begin

section \<open>Python values and exceptions\<close>

text \<open>
  The pipeline of \<^verbatim>\<open>parrot_tools/generate/stable_diffusion_pipeline.py\<close> is embedded
  shallowly. Python floats are idealised as reals; unbounded Python integers are \<open>int\<close>.
  Every exception that the module's own code can raise is a value of \<open>error\<close>.
\<close>

datatype pyval =
    PyStr string
  | PyInt int
  | PyFloat real
  | PyNone
  | PyList "pyval list"

fun type_name :: "pyval \<Rightarrow> string" where
  "type_name (PyStr _) = ''str''"
| "type_name (PyInt _) = ''int''"
| "type_name (PyFloat _) = ''float''"
| "type_name PyNone = ''NoneType''"
| "type_name (PyList _) = ''list''"

datatype value_error =
    BadPromptType string
  | NotDivisibleBy8 int int
  | StrengthOutOfRange real
  | UnpackMismatch nat
  | LibraryMessage string

datatype error =
    ValueError value_error
  | ZeroDivisionError
  | UnboundLocalError string
  | IndexError
  | LibraryError string


text \<open>\<^verbatim>\<open>int(x)\<close> on a float truncates toward zero.\<close>

definition py_int :: "real \<Rightarrow> int" where
  "py_int x = (if 0 \<le> x then \<lfloor>x\<rfloor> else \<lceil>x\<rceil>)"

text \<open>
  \<^verbatim>\<open>np.sqrt\<close> of a negative number is \<^verbatim>\<open>nan\<close> (with a warning, no exception);
  every comparison with \<^verbatim>\<open>nan\<close> is false. \<open>None\<close> stands for \<^verbatim>\<open>nan\<close>.
\<close>

definition np_sqrt :: "real \<Rightarrow> real option" where
  "np_sqrt q = (if q < 0 then None else Some (sqrt q))"

section \<open>Images and arrays\<close>

text \<open>
  An RGB image as PIL holds it: its \<^verbatim>\<open>size\<close> is (width, height) and every pixel has
  three 8-bit channels. The imaging library itself is not part of the repository: its
  two operations used by the module are parameters. \<open>resize_lanczos\<close> is
  \<^verbatim>\<open>image.resize(size, resample=PIL.Image.LANCZOS)\<close>, which may raise.
\<close>

type_synonym rgb = "8 word \<times> 8 word \<times> 8 word"

record image =
  im_w :: nat
  im_h :: nat
  im_px :: "nat \<Rightarrow> nat \<Rightarrow> rgb"

record 'raw pil_ops =
  convert_RGB :: "'raw \<Rightarrow> image"
  resize_lanczos :: "image \<Rightarrow> int \<times> int \<Rightarrow> error + image"

text \<open>
  An n-dimensional array: its shape and its element at a multi-index. The elements at
  indices outside the shape carry no meaning.
\<close>

record 'a ndarray =
  nd_shape :: "nat list"
  nd_at :: "nat list \<Rightarrow> 'a"

definition nd_map :: "('a \<Rightarrow> 'b) \<Rightarrow> 'a ndarray \<Rightarrow> 'b ndarray" where
  "nd_map f a = \<lparr>nd_shape = nd_shape a, nd_at = (\<lambda>i. f (nd_at a i))\<rparr>"

definition rgb_channel :: "rgb \<Rightarrow> nat \<Rightarrow> 8 word" where
  "rgb_channel p c = (case p of (r, g, b) \<Rightarrow> if c = 0 then r else if c = 1 then g else b)"

text \<open>\<^verbatim>\<open>np.array(image)\<close>: shape (height, width, 3), element type uint8.\<close>

definition np_array :: "image \<Rightarrow> 8 word ndarray" where
  "np_array im =
     \<lparr>nd_shape = [im_h im, im_w im, 3],
      nd_at = (\<lambda>i. case i of [y, x, c] \<Rightarrow> rgb_channel (im_px im x y) c | _ \<Rightarrow> 0)\<rparr>"

text \<open>\<^verbatim>\<open>a.astype(np.float32)\<close> on a uint8 array.\<close>

definition astype_float32 :: "8 word ndarray \<Rightarrow> real ndarray" where
  "astype_float32 a = nd_map (\<lambda>v. real (unat v)) a"

text \<open>\<^verbatim>\<open>a[None]\<close>: a new leading axis of length 1.\<close>

definition new_axis :: "'a ndarray \<Rightarrow> 'a ndarray" where
  "new_axis a = \<lparr>nd_shape = 1 # nd_shape a, nd_at = (\<lambda>i. nd_at a (tl i))\<rparr>"

text \<open>\<^verbatim>\<open>a.transpose(0, 3, 1, 2)\<close> on a four-dimensional array.\<close>

definition transpose_0312 :: "'a ndarray \<Rightarrow> 'a ndarray" where
  "transpose_0312 a =
     \<lparr>nd_shape = (case nd_shape a of [n, h, w, c] \<Rightarrow> [n, c, h, w] | s \<Rightarrow> s),
      nd_at = (\<lambda>i. case i of [n, c, y, x] \<Rightarrow> nd_at a [n, y, x, c] | _ \<Rightarrow> nd_at a i)\<rparr>"


section \<open>scale\_image and preprocess\<close>

text \<open>
  \<^verbatim>\<open>scale_image(image, max_pixels)\<close>, lines 20 to 28. The quotient
  \<^verbatim>\<open>max_pixels / (w * h)\<close> of two Python integers raises ZeroDivisionError when
  the image has no pixels.
\<close>

definition scale_image :: "'raw pil_ops \<Rightarrow> image \<Rightarrow> int \<Rightarrow> error + image" where
  "scale_image P img max_pixels =
     (let w = int (im_w img); h = int (im_h img) in
      if w * h = 0 then Inl ZeroDivisionError
      else
        case np_sqrt (real_of_int max_pixels / real_of_int (w * h)) of
          None \<Rightarrow> Inr img
        | Some scale \<Rightarrow>
            if scale < 1
            then resize_lanczos P img
                   (py_int (real_of_int w * scale), py_int (real_of_int h * scale))
            else Inr img)"

text \<open>
  \<^verbatim>\<open>preprocess(image, max_pixels)\<close>, lines 31 to 46: the alpha channel is removed, the
  image is scaled to the budget, both sides are cut to a multiple of 64, and the pixels
  are mapped from 0..255 to the interval from -1 to 1 in the layout (1, 3, height, width).
\<close>

definition to_tensor :: "image \<Rightarrow> real ndarray" where
  "to_tensor img =
     (let a = nd_map (\<lambda>v. v / 255) (astype_float32 (np_array img));
          a = transpose_0312 (new_axis a)
      in nd_map (\<lambda>v. 2 * v - 1) a)"

definition preprocess :: "'raw pil_ops \<Rightarrow> 'raw \<Rightarrow> int \<Rightarrow> error + real ndarray" where
  "preprocess P raw max_pixels =
     (case scale_image P (convert_RGB P raw) max_pixels of
        Inl e \<Rightarrow> Inl e
      | Inr img \<Rightarrow>
          (let w = int (im_w img); h = int (im_h img) in
           case resize_lanczos P img (w - w mod 64, h - h mod 64) of
             Inl e \<Rightarrow> Inl e
           | Inr img' \<Rightarrow> Inr (to_tensor img')))"

section \<open>Collaborators\<close>

text \<open>
  The tensor library, the scheduler, the networks and the tokenizer are not part of the
  repository; the pipeline reaches them through the operations below, which are
  parameters of the model. Tensors have the abstract type \<open>'t\<close>; the scheduler object's
  mutable state has type \<open>'s\<close>, a random generator's state type \<open>'g\<close>. Moves between
  devices and dtype casts (\<^verbatim>\<open>.to(...)\<close>, \<^verbatim>\<open>.cpu()\<close>) keep the values and are left out.
  The collaborators are total functions here: a run in which one of them raises ends
  with that exception and is outside the model.
\<close>

record ('t, 'g) torch_ops =
  cat :: "'t list \<Rightarrow> 't"
  chunk :: "'t \<Rightarrow> nat \<Rightarrow> 't list"
  t_add :: "'t \<Rightarrow> 't \<Rightarrow> 't"
  t_sub :: "'t \<Rightarrow> 't \<Rightarrow> 't"
  t_smul :: "real \<Rightarrow> 't \<Rightarrow> 't"
  t_sdiv :: "'t \<Rightarrow> real \<Rightarrow> 't"
  t_sadd :: "'t \<Rightarrow> real \<Rightarrow> 't"
  t_clamp :: "'t \<Rightarrow> real \<Rightarrow> real \<Rightarrow> 't"
  t_shape :: "'t \<Rightarrow> int list"
  randn :: "int list \<Rightarrow> 'g \<Rightarrow> 't \<times> 'g"
  of_ndarray :: "real ndarray \<Rightarrow> 't"
  to_numpy_nhwc :: "'t \<Rightarrow> 't"
  cuda_is_available :: bool

text \<open>
  \<open>is_lms\<close> is \<^verbatim>\<open>isinstance(self.scheduler, LMSDiscreteScheduler)\<close>; \<open>accepts_offset\<close>
  and \<open>accepts_eta\<close> are what \<^verbatim>\<open>inspect.signature\<close> finds among the parameters of
  \<^verbatim>\<open>set_timesteps\<close> and \<^verbatim>\<open>step\<close>.
\<close>

record ('t, 's) scheduler_ops =
  is_lms :: bool
  accepts_offset :: bool
  accepts_eta :: bool
  set_timesteps :: "int \<Rightarrow> int option \<Rightarrow> 's \<Rightarrow> 's"
  timesteps :: "'s \<Rightarrow> int list"
  sigmas :: "'s \<Rightarrow> real list"
  add_noise :: "'s \<Rightarrow> 't \<Rightarrow> 't \<Rightarrow> int list \<Rightarrow> 't"
  step :: "'t \<Rightarrow> int \<Rightarrow> 't \<Rightarrow> real option \<Rightarrow> 's \<Rightarrow> 't \<times> 's"

text \<open>
  \<open>tokenizer text max_length truncation\<close> gives the \<^verbatim>\<open>input_ids\<close>; \<open>ids_length\<close> is
  their \<^verbatim>\<open>shape[-1]\<close>. \<open>text_encoder\<close> and \<open>unet\<close> give the component of their output that
  the pipeline reads (\<^verbatim>\<open>[0]\<close>, \<^verbatim>\<open>["sample"]\<close>); \<open>vae_encode_sample\<close> is
  \<^verbatim>\<open>self.vae.encode(x).sample()\<close>.
\<close>

record ('t, 'raw) model_ops =
  tokenizer :: "pyval \<Rightarrow> nat \<Rightarrow> bool \<Rightarrow> 't"
  model_max_length :: nat
  ids_length :: "'t \<Rightarrow> nat"
  text_encoder :: "'t \<Rightarrow> 't"
  unet :: "'t \<Rightarrow> int \<Rightarrow> 't \<Rightarrow> 't"
  in_channels :: int
  vae_encode_sample :: "'t \<Rightarrow> 't"
  vae_decode :: "'t \<Rightarrow> 't"
  feature_extractor :: "'raw list \<Rightarrow> 't"
  safety_checker :: "'t \<Rightarrow> 't \<Rightarrow> 't \<times> bool list"
  numpy_to_pil :: "'t \<Rightarrow> 'raw list"

record ('t, 'raw, 's, 'g) env =
  torch :: "('t, 'g) torch_ops"
  scheduler :: "('t, 's) scheduler_ops"
  models :: "('t, 'raw) model_ops"
  pil :: "'raw pil_ops"

section \<open>Arguments, state and the record of calls\<close>

datatype ('t, 'raw) init_image = FloatTensor 't | PILImage 'raw

text \<open>
  The arguments of \<^verbatim>\<open>__call__\<close>. \<open>torch_device\<close> is \<open>None\<close> when the keyword is absent
  and \<open>Some d\<close> when \<^verbatim>\<open>torch_device=d\<close> was passed (\<open>d\<close> itself may be \<^verbatim>\<open>None\<close>). The
  \<^verbatim>\<open>generator\<close> argument is a mutable object and lives in the state.
\<close>

record ('t, 'raw) call_args =
  prompt :: pyval
  height :: int
  width :: int
  init_image :: "('t, 'raw) init_image option"
  init_max_pixels :: int
  init_strength :: real
  num_inference_steps :: int
  guidance_scale :: real
  eta :: real
  output_type :: string
  torch_device :: "string option option"

text \<open>One event for every call that leaves the pipeline's own code.\<close>

datatype 't event =
    Warn
  | PipelineTo string
  | Tokenizer pyval nat bool
  | TextEncoder 't
  | SetTimesteps int "int option"
  | VaeEncode 't
  | Randn "int list"
  | AddNoise 't 't "int list"
  | Unet 't int 't
  | SchedulerStep 't int 't "real option"
  | VaeDecode 't
  | FeatureExtractor
  | SafetyChecker 't 't

text \<open>
  \<open>sched\<close> is the scheduler object's state, \<open>gen\<close> the state of the caller's generator
  (\<open>None\<close> when \<^verbatim>\<open>generator=None\<close>), \<open>global_rng\<close> the state of torch's default
  generator, and \<open>trace\<close> the calls made so far.
\<close>

record ('t, 's, 'g) state =
  sched :: 's
  gen :: "'g option"
  global_rng :: 'g
  trace :: "'t event list"

datatype ('t, 'raw) sample = Array 't | Pil "'raw list"

record ('t, 'raw) pipeline_output =
  sample :: "('t, 'raw) sample"
  nsfw_content_detected :: "bool list"

subsection \<open>Sequencing with exceptions\<close>

type_synonym ('a, 't, 's, 'g) act = "('t, 's, 'g) state \<Rightarrow> (error + 'a) \<times> ('t, 's, 'g) state"

definition ret :: "'a \<Rightarrow> ('a, 't, 's, 'g) act" where
  "ret x = (\<lambda>s. (Inr x, s))"

definition raise :: "error \<Rightarrow> ('a, 't, 's, 'g) act" where
  "raise e = (\<lambda>s. (Inl e, s))"

definition lift :: "error + 'a \<Rightarrow> ('a, 't, 's, 'g) act" where
  "lift r = (\<lambda>s. (r, s))"

definition bnd :: "('a, 't, 's, 'g) act \<Rightarrow> ('a \<Rightarrow> ('b, 't, 's, 'g) act) \<Rightarrow> ('b, 't, 's, 'g) act" where
  "bnd m f = (\<lambda>s. case m s of (Inl e, s') \<Rightarrow> (Inl e, s') | (Inr x, s') \<Rightarrow> f x s')"

definition invoke :: "'t event \<Rightarrow> 'a \<Rightarrow> ('a, 't, 's, 'g) act" where
  "invoke ev r = (\<lambda>s. (Inr r, s\<lparr>trace := trace s @ [ev]\<rparr>))"

text \<open>Python indexing of a sequence: a negative index counts from the end.\<close>

definition py_index :: "'a list \<Rightarrow> int \<Rightarrow> error + 'a" where
  "py_index xs i =
     (let j = (if i < 0 then int (length xs) + i else i)
      in if 0 \<le> j \<and> j < int (length xs) then Inr (xs ! nat j) else Inl IndexError)"

subsection \<open>Calls that read or change the state\<close>

text \<open>
  \<^verbatim>\<open>torch.randn(shape, generator=generator)\<close> draws from the caller's generator when one
  was passed and from the default generator otherwise.
\<close>

definition torch_randn :: "('t, 'raw, 's, 'g) env \<Rightarrow> int list \<Rightarrow> ('t, 't, 's, 'g) act" where
  "torch_randn E shp =
     (\<lambda>s. case gen s of
        Some g \<Rightarrow>
          (case randn (torch E) shp g of
             (x, g') \<Rightarrow> (Inr x, s\<lparr>gen := Some g', trace := trace s @ [Randn shp]\<rparr>))
      | None \<Rightarrow>
          (case randn (torch E) shp (global_rng s) of
             (x, g') \<Rightarrow> (Inr x, s\<lparr>global_rng := g', trace := trace s @ [Randn shp]\<rparr>)))"

definition scheduler_set_timesteps ::
  "('t, 'raw, 's, 'g) env \<Rightarrow> int \<Rightarrow> int option \<Rightarrow> (unit, 't, 's, 'g) act" where
  "scheduler_set_timesteps E n off =
     (\<lambda>s. (Inr (), s\<lparr>sched := set_timesteps (scheduler E) n off (sched s),
                      trace := trace s @ [SetTimesteps n off]\<rparr>))"

definition scheduler_timesteps :: "('t, 'raw, 's, 'g) env \<Rightarrow> (int list, 't, 's, 'g) act" where
  "scheduler_timesteps E = (\<lambda>s. (Inr (timesteps (scheduler E) (sched s)), s))"

definition scheduler_sigma :: "('t, 'raw, 's, 'g) env \<Rightarrow> int \<Rightarrow> (real, 't, 's, 'g) act" where
  "scheduler_sigma E i = (\<lambda>s. (py_index (sigmas (scheduler E) (sched s)) i, s))"

definition scheduler_add_noise ::
  "('t, 'raw, 's, 'g) env \<Rightarrow> 't \<Rightarrow> 't \<Rightarrow> int list \<Rightarrow> ('t, 't, 's, 'g) act" where
  "scheduler_add_noise E x noise ts =
     (\<lambda>s. (Inr (add_noise (scheduler E) (sched s) x noise ts),
            s\<lparr>trace := trace s @ [AddNoise x noise ts]\<rparr>))"

definition scheduler_step ::
  "('t, 'raw, 's, 'g) env \<Rightarrow> 't \<Rightarrow> int \<Rightarrow> 't \<Rightarrow> real option \<Rightarrow> ('t, 't, 's, 'g) act" where
  "scheduler_step E noise_pred t latents eta_arg =
     (\<lambda>s. case step (scheduler E) noise_pred t latents eta_arg (sched s) of
        (prev_sample, sc) \<Rightarrow>
          (Inr prev_sample,
           s\<lparr>sched := sc, trace := trace s @ [SchedulerStep noise_pred t latents eta_arg]\<rparr>))"

section \<open>The pipeline call\<close>

text \<open>
  Lines 88 to 95: the deprecated \<^verbatim>\<open>torch_device\<close> keyword warns and moves the pipeline.
\<close>

definition legacy_device :: "('t, 'raw, 's, 'g) env \<Rightarrow> ('t, 'raw) call_args \<Rightarrow> (unit, 't, 's, 'g) act" where
  "legacy_device E a =
     (case torch_device a of
        None \<Rightarrow> ret ()
      | Some d \<Rightarrow>
          bnd (invoke Warn ()) (\<lambda>_.
          invoke (PipelineTo (case d of
                    None \<Rightarrow> if cuda_is_available (torch E) then ''cuda'' else ''cpu''
                  | Some dev \<Rightarrow> dev)) ()))"

text \<open>Lines 97 to 104: the batch size, or the ValueError for the prompt's type.\<close>

definition get_batch_size :: "('t, 'raw) call_args \<Rightarrow> error + nat" where
  "get_batch_size a =
     (case prompt a of
        PyStr _ \<Rightarrow> Inr 1
      | PyList xs \<Rightarrow> Inr (length xs)
      | _ \<Rightarrow> Inl (ValueError (BadPromptType (type_name (prompt a)))))"

text \<open>
  Lines 106 to 109. In Python \<^verbatim>\<open>and\<close> binds tighter than \<^verbatim>\<open>or\<close>: the condition is
  \<^verbatim>\<open>(init_image is not None and height % 8 != 0) or width % 8 != 0\<close>.
\<close>

definition check_height_width :: "('t, 'raw) call_args \<Rightarrow> error + unit" where
  "check_height_width a =
     (if (init_image a \<noteq> None \<and> height a mod 8 \<noteq> 0) \<or> width a mod 8 \<noteq> 0
      then Inl (ValueError (NotDivisibleBy8 (height a) (width a)))
      else Inr ())"

text \<open>Lines 111 to 115.\<close>

definition check_init_strength :: "('t, 'raw) call_args \<Rightarrow> error + unit" where
  "check_init_strength a =
     (if init_image a \<noteq> None
      then (if init_strength a < 0 \<or> init_strength a > 1
            then Inl (ValueError (StrengthOutOfRange (init_strength a)))
            else Inr ())
      else Inr ())"

text \<open>Lines 117 to 147: the text embeddings, with the unconditional ones in front under guidance.\<close>

definition encode_prompt ::
  "('t, 'raw, 's, 'g) env \<Rightarrow> ('t, 'raw) call_args \<Rightarrow> nat \<Rightarrow> ('t, 't, 's, 'g) act" where
  "encode_prompt E a batch_size =
     (let M = models E; n = model_max_length M in
      bnd (invoke (Tokenizer (prompt a) n True) (tokenizer M (prompt a) n True)) (\<lambda>text_input.
      bnd (invoke (TextEncoder text_input) (text_encoder M text_input)) (\<lambda>text_embeddings.
      if guidance_scale a > 1
      then
        (let max_length = ids_length M text_input;
             empty = PyList (replicate batch_size (PyStr [])) in
         bnd (invoke (Tokenizer empty max_length False) (tokenizer M empty max_length False))
           (\<lambda>uncond_input.
         bnd (invoke (TextEncoder uncond_input) (text_encoder M uncond_input))
           (\<lambda>uncond_embeddings.
         ret (cat (torch E) [uncond_embeddings, text_embeddings]))))
      else ret text_embeddings)))"

text \<open>Lines 149 to 159: the offset, and the scheduler's timesteps are set.\<close>

definition set_scheduler_timesteps ::
  "('t, 'raw, 's, 'g) env \<Rightarrow> ('t, 'raw) call_args \<Rightarrow> (int, 't, 's, 'g) act" where
  "set_scheduler_timesteps E a =
     (if accepts_offset (scheduler E)
      then bnd (scheduler_set_timesteps E (num_inference_steps a) (Some 1)) (\<lambda>_. ret 1)
      else bnd (scheduler_set_timesteps E (num_inference_steps a) None) (\<lambda>_. ret 0))"

text \<open>
  Lines 161 to 206: the starting latents. The second component is the local variable
  \<^verbatim>\<open>init_timestep\<close>, which is assigned in the seed-image branch only: \<open>None\<close> says
  that it is unbound.
\<close>

definition prepare_latents ::
  "('t, 'raw, 's, 'g) env \<Rightarrow> ('t, 'raw) call_args \<Rightarrow> nat \<Rightarrow> int \<Rightarrow>
     ('t \<times> int option, 't, 's, 'g) act" where
  "prepare_latents E a batch_size offset =
     (let T = torch E; n = num_inference_steps a in
      case init_image a of
        Some im \<Rightarrow>
          bnd (case im of
                 FloatTensor x \<Rightarrow> ret x
               | PILImage raw \<Rightarrow>
                   lift (map_sum id (of_ndarray T) (preprocess (pil E) raw (init_max_pixels a))))
            (\<lambda>x.
          bnd (invoke (VaeEncode x) (vae_encode_sample (models E) x)) (\<lambda>init_latents.
          (let init_latents = t_smul T (18215 / 100000) init_latents;
               init_latents = cat T (replicate batch_size init_latents);
               init_timestep = py_int (real_of_int n * init_strength a) + offset;
               init_timestep = min init_timestep n in
           bnd (if is_lms (scheduler E)
                then ret (replicate batch_size (n - init_timestep))
                else bnd (scheduler_timesteps E) (\<lambda>ts.
                     bnd (lift (py_index ts (- init_timestep))) (\<lambda>t.
                     ret (replicate batch_size t))))
             (\<lambda>noise_timesteps.
           bnd (torch_randn E (t_shape T init_latents)) (\<lambda>noise.
           bnd (scheduler_add_noise E init_latents noise noise_timesteps) (\<lambda>init_latents.
           ret (init_latents, Some init_timestep)))))))
      | None \<Rightarrow>
          bnd (torch_randn E [int batch_size, in_channels (models E), height a div 8, width a div 8])
            (\<lambda>latents.
          bnd (if is_lms (scheduler E)
               then bnd (scheduler_sigma E 0) (\<lambda>sigma0. ret (t_smul T sigma0 latents))
               else ret latents)
            (\<lambda>latents.
          ret (latents, None))))"

text \<open>
  Line 219. Reading \<^verbatim>\<open>init_timestep\<close> while it is unbound raises UnboundLocalError.
\<close>

definition get_t_start :: "('t, 'raw) call_args \<Rightarrow> int option \<Rightarrow> int \<Rightarrow> error + int" where
  "get_t_start a init_timestep offset =
     (case init_timestep of
        None \<Rightarrow> Inl (UnboundLocalError ''init_timestep'')
      | Some it \<Rightarrow> Inr (max (num_inference_steps a - it + offset) 0))"

text \<open>Lines 221 to 254: the body of the sampling loop.\<close>

definition denoise_step ::
  "('t, 'raw, 's, 'g) env \<Rightarrow> ('t, 'raw) call_args \<Rightarrow> 't \<Rightarrow> int \<Rightarrow> int \<Rightarrow> 't \<Rightarrow>
     ('t, 't, 's, 'g) act" where
  "denoise_step E a text_embeddings t_index t latents =
     (let T = torch E; S = scheduler E;
          do_classifier_free_guidance = guidance_scale a > 1;
          latent_model_input =
            (if do_classifier_free_guidance then cat T [latents, latents] else latents) in
      bnd (if is_lms S
           then bnd (scheduler_sigma E t_index) (\<lambda>sigma.
                ret (t_sdiv T latent_model_input (sqrt (sigma\<^sup>2 + 1))))
           else ret latent_model_input)
        (\<lambda>latent_model_input.
      bnd (invoke (Unet latent_model_input t text_embeddings)
             (unet (models E) latent_model_input t text_embeddings))
        (\<lambda>noise_pred.
      bnd (if do_classifier_free_guidance
           then (case chunk T noise_pred 2 of
                   [noise_pred_uncond, noise_pred_text] \<Rightarrow>
                     ret (t_add T noise_pred_uncond
                            (t_smul T (guidance_scale a)
                               (t_sub T noise_pred_text noise_pred_uncond)))
                 | cs \<Rightarrow> raise (ValueError (UnpackMismatch (length cs))))
           else ret noise_pred)
        (\<lambda>noise_pred.
      scheduler_step E noise_pred (if is_lms S then t_index else t) latents
        (if accepts_eta S then Some (eta a) else None)))))"

text \<open>
  Line 220: the loop over \<^verbatim>\<open>enumerate(self.scheduler.timesteps[t_start:])\<close>; \<open>i\<close> is
  the position of the head of the remaining list.
\<close>

fun denoise_loop ::
  "('t, 'raw, 's, 'g) env \<Rightarrow> ('t, 'raw) call_args \<Rightarrow> 't \<Rightarrow> int \<Rightarrow> int \<Rightarrow> int list \<Rightarrow> 't \<Rightarrow>
     ('t, 't, 's, 'g) act" where
  "denoise_loop E a text_embeddings t_start i [] latents s = (Inr latents, s)"
| "denoise_loop E a text_embeddings t_start i (t # ts) latents s =
     (case denoise_step E a text_embeddings (t_start + i) t latents s of
        (Inl e, s') \<Rightarrow> (Inl e, s')
      | (Inr latents', s') \<Rightarrow> denoise_loop E a text_embeddings t_start (i + 1) ts latents' s')"

text \<open>Lines 88 to 254: everything up to the final latents.\<close>

definition denoise ::
  "('t, 'raw, 's, 'g) env \<Rightarrow> ('t, 'raw) call_args \<Rightarrow> ('t, 't, 's, 'g) act" where
  "denoise E a =
     bnd (legacy_device E a) (\<lambda>_.
     bnd (lift (get_batch_size a)) (\<lambda>batch_size.
     bnd (lift (check_height_width a)) (\<lambda>_.
     bnd (lift (check_init_strength a)) (\<lambda>_.
     bnd (encode_prompt E a batch_size) (\<lambda>text_embeddings.
     bnd (set_scheduler_timesteps E a) (\<lambda>offset.
     bnd (prepare_latents E a batch_size offset) (\<lambda>(latents, init_timestep).
     bnd (lift (get_t_start a init_timestep offset)) (\<lambda>t_start.
     bnd (scheduler_timesteps E) (\<lambda>ts.
     denoise_loop E a text_embeddings t_start 0 (drop (nat t_start) ts) latents)))))))))"

text \<open>Lines 256 to 274: decoding, the safety check and the result.\<close>

definition decode ::
  "('t, 'raw, 's, 'g) env \<Rightarrow> ('t, 'raw) call_args \<Rightarrow> 't \<Rightarrow>
     (('t, 'raw) pipeline_output, 't, 's, 'g) act" where
  "decode E a latents =
     (let T = torch E; M = models E;
          latents = t_smul T (1 / (18215 / 100000)) latents in
      bnd (invoke (VaeDecode latents) (vae_decode M latents)) (\<lambda>img.
      (let img = t_clamp T (t_sadd T (t_sdiv T img 2) (1 / 2)) 0 1;
           img = to_numpy_nhwc T img in
       bnd (invoke FeatureExtractor (feature_extractor M (numpy_to_pil M img)))
         (\<lambda>safety_cheker_input.
       bnd (invoke (SafetyChecker img safety_cheker_input)
              (safety_checker M img safety_cheker_input))
         (\<lambda>(img, has_nsfw_concept).
       ret \<lparr>sample = (if output_type a = ''pil'' then Pil (numpy_to_pil M img) else Array img),
            nsfw_content_detected = has_nsfw_concept\<rparr>)))))"

text \<open>\<^verbatim>\<open>StableDiffusionPipelineCustom.__call__\<close>.\<close>

definition pipeline_call ::
  "('t, 'raw, 's, 'g) env \<Rightarrow> ('t, 'raw) call_args \<Rightarrow>
     (('t, 'raw) pipeline_output, 't, 's, 'g) act" where
  "pipeline_call E a = bnd (denoise E a) (decode E a)"

section \<open>A small concrete environment\<close>

text \<open>
  Concrete collaborators on which the definitions above can be run. Tensors are lists of
  numbers (a list of two or four numbers splits into halves), the generator's state is a
  counter, the scheduler's state is its list of timesteps. \<open>resize_nearest\<close> refuses an empty target size with a ValueError and
  otherwise samples the nearest pixel.
\<close>

definition resize_nearest :: "image \<Rightarrow> int \<times> int \<Rightarrow> error + image" where
  "resize_nearest img sz =
     (case sz of (w, h) \<Rightarrow>
        if w < 1 \<or> h < 1
        then Inl (ValueError (LibraryMessage ''height and width must be > 0''))
        else Inr \<lparr>im_w = nat w, im_h = nat h,
                  im_px = (\<lambda>x y. im_px img (x * im_w img div nat w) (y * im_h img div nat h))\<rparr>)"

definition toy_pil :: "image pil_ops" where
  "toy_pil = \<lparr>convert_RGB = (\<lambda>img. img), resize_lanczos = resize_nearest\<rparr>"


definition toy_torch :: "(real list, nat) torch_ops" where
  "toy_torch =
     \<lparr>cat = concat,
      chunk = (\<lambda>t n. case t of [a, b] \<Rightarrow> [[a], [b]]
                            | [a, b, c, d] \<Rightarrow> [[a, b], [c, d]]
                            | _ \<Rightarrow> [t]),
      t_add = map2 (+),
      t_sub = map2 (-),
      t_smul = (\<lambda>c. map (\<lambda>x. c * x)),
      t_sdiv = (\<lambda>t c. map (\<lambda>x. x / c) t),
      t_sadd = (\<lambda>t c. map (\<lambda>x. x + c) t),
      t_clamp = (\<lambda>t lo hi. map (\<lambda>x. max lo (min hi x)) t),
      t_shape = (\<lambda>t. [int (length t)]),
      randn = (\<lambda>shp g. (case shp of [] \<Rightarrow> [] | n # _ \<Rightarrow> replicate (nat n) (real g), Suc g)),
      of_ndarray = (\<lambda>a. [nd_at a [0, 0, 0, 0]]),
      to_numpy_nhwc = (\<lambda>t. t),
      cuda_is_available = False\<rparr>"

definition toy_scheduler :: "(real list, int list) scheduler_ops" where
  "toy_scheduler =
     \<lparr>is_lms = False,
      accepts_offset = True,
      accepts_eta = True,
      set_timesteps = (\<lambda>n off s. rev (map (\<lambda>k. k + (case off of None \<Rightarrow> 0 | Some d \<Rightarrow> d)) [0..n - 1])),
      timesteps = (\<lambda>s. s),
      sigmas = (\<lambda>s. []),
      add_noise = (\<lambda>s x noise ts. map2 (+) x noise),
      step = (\<lambda>noise_pred t latents eta_arg s. (map2 (-) latents noise_pred, s))\<rparr>"

definition toy_models :: "(real list, image) model_ops" where
  "toy_models =
     \<lparr>tokenizer = (\<lambda>p n truncation.
                    case p of PyStr w \<Rightarrow> [real (length w)]
                            | PyList ws \<Rightarrow> map (\<lambda>_. 0) ws
                            | _ \<Rightarrow> []),
      model_max_length = 77,
      ids_length = (\<lambda>ids. 77),
      text_encoder = (\<lambda>ids. ids),
      unet = (\<lambda>x t e.
                case (x, e) of
                  ([a, b, c, d], [e1, e2]) \<Rightarrow> [a / 2 + e1, b / 2 + e1, c / 2 + e2, d / 2 + e2]
                | ([a, b], [e1]) \<Rightarrow> [a / 2 + e1, b / 2 + e1]
                | _ \<Rightarrow> x),
      in_channels = 4,
      vae_encode_sample = (\<lambda>x. x),
      vae_decode = (\<lambda>x. x),
      feature_extractor = (\<lambda>ims. []),
      safety_checker = (\<lambda>img clip. (img, [False])),
      numpy_to_pil = (\<lambda>t. [])\<rparr>"

definition toy_env :: "(real list, image, int list, nat) env" where
  "toy_env = \<lparr>torch = toy_torch, scheduler = toy_scheduler, models = toy_models, pil = toy_pil\<rparr>"

text \<open>
  The defaults of \<^verbatim>\<open>__call__\<close> with the prompt "a red ball" and no seed image, and the
  same call with a seed tensor and four steps.
\<close>

definition red_ball :: "(real list, image) call_args" where
  "red_ball =
     \<lparr>prompt = PyStr ''a red ball'', height = 512, width = 512, init_image = None,
      init_max_pixels = 262144, init_strength = 8 / 10, num_inference_steps = 50,
      guidance_scale = 75 / 10, eta = 0, output_type = ''pil'', torch_device = None\<rparr>"

definition seeded :: "(real list, image) call_args" where
  "seeded = red_ball\<lparr>init_image := Some (FloatTensor [1, 2]), num_inference_steps := 4\<rparr>"

definition start_state :: "nat \<Rightarrow> (real list, int list, nat) state" where
  "start_state g = \<lparr>sched = [], gen = Some 7, global_rng = g, trace = []\<rparr>"

text \<open>Variants of the two calls.\<close>

definition int_prompt :: "(real list, image) call_args" where
  "int_prompt = seeded\<lparr>prompt := PyInt 5\<rparr>"

definition list_of_int_prompt :: "(real list, image) call_args" where
  "list_of_int_prompt = seeded\<lparr>prompt := PyList [PyInt 1]\<rparr>"



definition narrow :: "(real list, image) call_args" where
  "narrow = red_ball\<lparr>width := 100\<rparr>"


definition unguided_seeded :: "(real list, image) call_args" where
  "unguided_seeded = seeded\<lparr>guidance_scale := 1\<rparr>"

definition two_prompts :: "(real list, image) call_args" where
  "two_prompts = seeded\<lparr>prompt := PyList [PyStr ''cat'', PyStr ''dog'']\<rparr>"


section \<open>Notions used in the statements\<close>








text \<open>
  The events of the deprecated device keyword, which precede every check.
\<close>

definition legacy_events :: "('t, 'raw, 's, 'g) env \<Rightarrow> ('t, 'raw) call_args \<Rightarrow> 't event list" where
  "legacy_events E a =
     (case torch_device a of
        None \<Rightarrow> []
      | Some d \<Rightarrow>
          [Warn,
           PipelineTo (case d of
              None \<Rightarrow> if cuda_is_available (torch E) then ''cuda'' else ''cpu''
            | Some dev \<Rightarrow> dev)])"

fun is_str :: "pyval \<Rightarrow> bool" where
  "is_str (PyStr _) = True"
| "is_str _ = False"

fun is_list :: "pyval \<Rightarrow> bool" where
  "is_list (PyList _) = True"
| "is_list _ = False"

fun is_list_of_str :: "pyval \<Rightarrow> bool" where
  "is_list_of_str (PyList xs) = list_all is_str xs"
| "is_list_of_str _ = False"

definition batch_size_of :: "('t, 'raw) call_args \<Rightarrow> nat" where
  "batch_size_of a = (case get_batch_size a of Inr b \<Rightarrow> b | Inl _ \<Rightarrow> 0)"

text \<open>
  The conditional embeddings of the prompt and the unconditional embeddings of the
  batch of empty prompts, as values of the collaborators.
\<close>

definition cond_embeddings :: "('t, 'raw, 's, 'g) env \<Rightarrow> ('t, 'raw) call_args \<Rightarrow> 't" where
  "cond_embeddings E a =
     text_encoder (models E)
       (tokenizer (models E) (prompt a) (model_max_length (models E)) True)"

definition uncond_embeddings :: "('t, 'raw, 's, 'g) env \<Rightarrow> ('t, 'raw) call_args \<Rightarrow> 't" where
  "uncond_embeddings E a =
     text_encoder (models E)
       (tokenizer (models E) (PyList (replicate (batch_size_of a) (PyStr [])))
          (ids_length (models E)
             (tokenizer (models E) (prompt a) (model_max_length (models E)) True))
          False)"

text \<open>
  What a step under guidance must satisfy: the predictor was called on the embeddings
  [unconditional; conditional], its output splits in two, and the noise prediction
  handed to the scheduler is \<open>uncond + guidance_scale * (cond - uncond)\<close>. Without
  guidance: the predictor was called on the conditional embeddings and its output is
  handed on as it is.
\<close>

definition guided ::
  "('t, 'raw, 's, 'g) env \<Rightarrow> ('t, 'raw) call_args \<Rightarrow> 't \<Rightarrow> int \<Rightarrow> 't \<Rightarrow> 't \<Rightarrow> bool" where
  "guided E a x t e noise_pred =
     (e = cat (torch E) [uncond_embeddings E a, cond_embeddings E a] \<and>
      (case chunk (torch E) (unet (models E) x t e) 2 of
         [u, c] \<Rightarrow>
           noise_pred =
             t_add (torch E) u (t_smul (torch E) (guidance_scale a) (t_sub (torch E) c u))
       | _ \<Rightarrow> False))"

definition unguided ::
  "('t, 'raw, 's, 'g) env \<Rightarrow> ('t, 'raw) call_args \<Rightarrow> 't \<Rightarrow> int \<Rightarrow> 't \<Rightarrow> 't \<Rightarrow> bool" where
  "unguided E a x t e noise_pred =
     (e = cond_embeddings E a \<and> noise_pred = unet (models E) x t e)"

text \<open>
  \<open>steps_ok R evs\<close>: in the list of events every scheduler step comes right after a call
  of the predictor, and \<open>R\<close> relates that call's input, timestep and embeddings to the
  noise prediction of the step. \<open>steps_from\<close> reads the list with the predictor call
  of the event before, if that was one.
\<close>

primrec steps_from ::
  "('t \<Rightarrow> int \<Rightarrow> 't \<Rightarrow> 't \<Rightarrow> bool) \<Rightarrow> ('t \<times> int \<times> 't) option \<Rightarrow> 't event list \<Rightarrow> bool" where
  "steps_from R pending [] = True"
| "steps_from R pending (ev # evs) =
     (case ev of
        SchedulerStep noise_pred ti l eta_arg \<Rightarrow>
          (case pending of
             Some (x, t, e) \<Rightarrow> R x t e noise_pred \<and> steps_from R None evs
           | None \<Rightarrow> False)
      | Unet x t e \<Rightarrow> steps_from R (Some (x, t, e)) evs
      | _ \<Rightarrow> steps_from R None evs)"

definition steps_ok :: "('t \<Rightarrow> int \<Rightarrow> 't \<Rightarrow> 't \<Rightarrow> bool) \<Rightarrow> 't event list \<Rightarrow> bool" where
  "steps_ok R evs = steps_from R None evs"

text \<open>
  \<open>cond_only E a ev\<close>: if the event is a call of the tokenizer or of the text encoder,
  it is the one for the prompt itself.
\<close>

fun cond_only :: "('t, 'raw, 's, 'g) env \<Rightarrow> ('t, 'raw) call_args \<Rightarrow> 't event \<Rightarrow> bool" where
  "cond_only E a (Tokenizer p n truncation) =
     (p = prompt a \<and> n = model_max_length (models E) \<and> truncation)"
| "cond_only E a (TextEncoder ids) =
     (ids = tokenizer (models E) (prompt a) (model_max_length (models E)) True)"
| "cond_only E a ev = True"

fun is_step :: "'t event \<Rightarrow> bool" where
  "is_step (SchedulerStep noise_pred ti l eta_arg) = True"
| "is_step ev = False"




text \<open>
  Proof tools. \<open>emits Q R m\<close>: the action \<open>m\<close> only appends events, the appended events
  satisfy \<open>Q\<close>, and a returned result satisfies \<open>R\<close>. \<open>secure R m\<close>: from two states with
  the same seed, \<open>m\<close> gives the same outcome and states with the same seed again.
\<close>

definition emits ::
  "('t event list \<Rightarrow> bool) \<Rightarrow> ('a \<Rightarrow> bool) \<Rightarrow> ('a, 't, 's, 'g) act \<Rightarrow> bool" where
  "emits Q R m =
     (\<forall>s. \<exists>evs. trace (snd (m s)) = trace s @ evs \<and> Q evs \<and>
                 (\<forall>x. fst (m s) = Inr x \<longrightarrow> R x))"

definition append_closed :: "('t event list \<Rightarrow> bool) \<Rightarrow> bool" where
  "append_closed Q = (Q [] \<and> (\<forall>xs ys. Q xs \<longrightarrow> Q ys \<longrightarrow> Q (xs @ ys)))"


text \<open>The scheduler's state once line 159 has set the timesteps.\<close>

definition sched_after_set :: "('t, 'raw, 's, 'g) env \<Rightarrow> ('t, 'raw) call_args \<Rightarrow> 's \<Rightarrow> 's" where
  "sched_after_set E a sc =
     set_timesteps (scheduler E) (num_inference_steps a)
       (if accepts_offset (scheduler E) then Some 1 else None) sc"

text \<open>The text embeddings that lines 117 to 147 hand to the loop.\<close>

definition prompt_embeddings :: "('t, 'raw, 's, 'g) env \<Rightarrow> ('t, 'raw) call_args \<Rightarrow> 't" where
  "prompt_embeddings E a =
     (if 1 < guidance_scale a
      then cat (torch E) [uncond_embeddings E a, cond_embeddings E a]
      else cond_embeddings E a)"

text \<open>
  The property of appended events that every phase of the call keeps: steps are as the
  guidance scale demands, without guidance only the prompt itself is encoded, and the
  events do not begin with a scheduler step.
\<close>

definition well_stepped ::
  "('t, 'raw, 's, 'g) env \<Rightarrow> ('t, 'raw) call_args \<Rightarrow> 't event list \<Rightarrow> bool" where
  "well_stepped E a evs =
     ((if 1 < guidance_scale a then steps_ok (guided E a) evs
       else steps_ok (unguided E a) evs \<and> list_all (cond_only E a) evs) \<and>
      (evs = [] \<or> \<not> is_step (hd evs)))"

section \<open>Properties of scale\_image and preprocess\<close>

subsection \<open>Auxiliary facts\<close>























subsection \<open>The claims on preprocessing\<close>









section \<open>Properties of the pipeline call\<close>

subsection \<open>Auxiliary facts\<close>

lemma bnd_ret: "bnd (ret x) f = f x"
  by (simp add: bnd_def ret_def)

lemma bnd_raise: "bnd (raise e) f = raise e"
  by (simp add: bnd_def raise_def)

lemma bnd_lift_Inr: "bnd (lift (Inr x)) f = f x"
  by (simp add: bnd_def lift_def)

lemma bnd_lift_Inl: "bnd (lift (Inl e)) f = raise e"
  by (simp add: bnd_def lift_def raise_def)

lemma legacy_device_eq:
  "legacy_device E a s = (Inr (), s\<lparr>trace := trace s @ legacy_events E a\<rparr>)"
  by (simp add: legacy_device_def legacy_events_def bnd_def ret_def invoke_def
      split: option.splits)

lemma bnd_legacy_device:
  "bnd (legacy_device E a) f s = f () (s\<lparr>trace := trace s @ legacy_events E a\<rparr>)"
  by (simp add: bnd_def legacy_device_eq)

lemma get_batch_size_cases:
  "get_batch_size a =
     (if is_str (prompt a) then Inr 1
      else if is_list (prompt a) then Inr (case prompt a of PyList xs \<Rightarrow> length xs | _ \<Rightarrow> 0)
      else Inl (ValueError (BadPromptType (type_name (prompt a)))))"
  by (cases "prompt a") (simp_all add: get_batch_size_def)

lemma get_batch_size_ok:
  "is_str (prompt a) \<or> is_list (prompt a) \<Longrightarrow> \<exists>b. get_batch_size a = Inr b"
  by (cases "prompt a") (simp_all add: get_batch_size_def)

lemma denoise_bad_prompt:
  assumes "\<not> is_str (prompt a)" "\<not> is_list (prompt a)"
  shows "denoise E a s =
           (Inl (ValueError (BadPromptType (type_name (prompt a)))),
            s\<lparr>trace := trace s @ legacy_events E a\<rparr>)"
  using assms
  by (simp add: denoise_def bnd_legacy_device get_batch_size_cases bnd_lift_Inl raise_def)

lemma denoise_bad_size:
  assumes "get_batch_size a = Inr b"
    and "(init_image a \<noteq> None \<and> height a mod 8 \<noteq> 0) \<or> width a mod 8 \<noteq> 0"
  shows "denoise E a s =
           (Inl (ValueError (NotDivisibleBy8 (height a) (width a))),
            s\<lparr>trace := trace s @ legacy_events E a\<rparr>)"
  using assms
  by (simp add: denoise_def bnd_legacy_device bnd_lift_Inr bnd_lift_Inl raise_def
      check_height_width_def)


lemma pipeline_call_error:
  "denoise E a s = (Inl e, s') \<Longrightarrow> pipeline_call E a s = (Inl e, s')"
  by (simp add: pipeline_call_def bnd_def)


lemmas act_defs = bnd_def ret_def raise_def lift_def invoke_def torch_randn_def
  scheduler_set_timesteps_def scheduler_timesteps_def scheduler_sigma_def
  scheduler_add_noise_def scheduler_step_def

lemma legacy_device_result:
  "\<exists>s'. legacy_device E a s = (Inr (), s') \<and> sched s' = sched s \<and> gen s' = gen s \<and>
        global_rng s' = global_rng s"
  by (simp add: legacy_device_eq)

lemma encode_prompt_result:
  assumes "get_batch_size a = Inr b"
  shows "\<exists>s'. encode_prompt E a b s = (Inr (prompt_embeddings E a), s') \<and>
           sched s' = sched s \<and> gen s' = gen s \<and> global_rng s' = global_rng s"
  using assms
  by (simp add: encode_prompt_def prompt_embeddings_def cond_embeddings_def
      uncond_embeddings_def batch_size_of_def bnd_def invoke_def ret_def Let_def)

lemma set_scheduler_timesteps_result:
  "\<exists>s'. set_scheduler_timesteps E a s =
          (Inr (if accepts_offset (scheduler E) then 1 else 0), s') \<and>
        sched s' = sched_after_set E a (sched s) \<and> gen s' = gen s \<and>
        global_rng s' = global_rng s"
  by (simp add: set_scheduler_timesteps_def sched_after_set_def bnd_def
      scheduler_set_timesteps_def ret_def)

lemma prepare_latents_pure_noise:
  assumes "init_image a = None"
  shows "\<exists>r s'. prepare_latents E a b off s = (r, s') \<and> sched s' = sched s \<and>
           (if is_lms (scheduler E) \<and> sigmas (scheduler E) (sched s) = []
            then r = Inl IndexError else (\<exists>latents. r = Inr (latents, None)))"
  using assms
  by (auto simp: prepare_latents_def Let_def bnd_def torch_randn_def scheduler_sigma_def
      py_index_def ret_def split: option.splits prod.splits)

lemma pure_noise_denoise:
  assumes "init_image a = None" "get_batch_size a = Inr b" "width a mod 8 = 0"
  shows "fst (denoise E a s) =
           (if is_lms (scheduler E) \<and> sigmas (scheduler E) (sched_after_set E a (sched s)) = []
            then Inl IndexError else Inl (UnboundLocalError ''init_timestep''))"
proof -
  obtain s0 where e0: "legacy_device E a s = (Inr (), s0)" and c0: "sched s0 = sched s"
    using legacy_device_result[of E a s] by blast
  obtain s1 where e1: "encode_prompt E a b s0 = (Inr (prompt_embeddings E a), s1)"
      and c1: "sched s1 = sched s0"
    using encode_prompt_result[OF assms(2), of E s0] by blast
  let ?off = "if accepts_offset (scheduler E) then 1 else (0::int)"
  obtain s2 where e2: "set_scheduler_timesteps E a s1 = (Inr ?off, s2)"
      and c2: "sched s2 = sched_after_set E a (sched s1)"
    using set_scheduler_timesteps_result[of E a s1] by blast
  obtain r s3 where e3: "prepare_latents E a b ?off s2 = (r, s3)"
      and r: "if is_lms (scheduler E) \<and> sigmas (scheduler E) (sched s2) = []
            then r = Inl IndexError else (\<exists>latents. r = Inr (latents, None))"
    using prepare_latents_pure_noise[OF assms(1), of E b ?off s2] by blast
  have "fst (denoise E a s) =
          (case r of Inl e \<Rightarrow> Inl e | Inr _ \<Rightarrow> Inl (UnboundLocalError ''init_timestep''))"
    using assms r
    by (auto simp: denoise_def bnd_def lift_def e0 check_height_width_def
        check_init_strength_def e1 e2 e3 get_t_start_def split: if_splits)
  then show ?thesis using r c0 c1 c2 by (auto split: if_splits)
qed

lemma pure_noise_fails:
  assumes "init_image a = None"
  shows "\<exists>e. fst (pipeline_call E a s) = Inl e"
proof (cases "get_batch_size a")
  case (Inl e)
  then have "\<not> is_str (prompt a)" "\<not> is_list (prompt a)"
    by (auto simp: get_batch_size_cases split: if_splits)
  then show ?thesis using pipeline_call_error[OF denoise_bad_prompt, of a E s] by simp
next
  case (Inr b)
  show ?thesis
  proof (cases "width a mod 8 = 0")
    case True
    obtain r s' where d: "denoise E a s = (r, s')" by (cases "denoise E a s")
    have "\<exists>e. r = Inl e" using pure_noise_denoise[OF assms Inr True, of E s] d by auto
    then show ?thesis using d pipeline_call_error[of E a s _ s'] by auto
  next
    case False
    then show ?thesis using pipeline_call_error[OF denoise_bad_size[OF Inr], of E s] by simp
  qed
qed


subsection \<open>Running the concrete environment\<close>

lemma replicate_numeral: "replicate (numeral k) x = x # replicate (pred_numeral k) x"
  by (simp add: numeral_eq_Suc)

lemma toy_env_fields:
  "torch toy_env = toy_torch" "scheduler toy_env = toy_scheduler"
  "models toy_env = toy_models" "pil toy_env = toy_pil"
  by (simp_all add: toy_env_def)

lemmas phase_defs = legacy_device_def get_batch_size_def check_height_width_def
  check_init_strength_def encode_prompt_def set_scheduler_timesteps_def prepare_latents_def
  get_t_start_def denoise_step_def denoise_def decode_def pipeline_call_def py_index_def
  py_int_def

lemmas toy_simps = toy_env_fields toy_torch_def toy_scheduler_def toy_models_def
  start_state_def red_ball_def seeded_def replicate_numeral upto_rec1

subsection \<open>The checks of the arguments\<close>

text \<open>
  Claim C9 as the code has it. If the prompt is neither a string nor a list, the call
  raises a ValueError that names the prompt's type, and by then nothing has happened but
  the events of the deprecated device keyword: no collaborator was invoked, and the
  scheduler and the generators are untouched. Otherwise the batch size is 1 for a string
  and the length of the list for a list, whatever the list holds. Line 99 tests for a
  list only: a list whose elements are not strings passes the check and reaches the
  tokenizer, which refutes the claim as it is worded for a list of strings.
\<close>

theorem prompt_type_check:
  "(\<not> is_str (prompt a) \<and> \<not> is_list (prompt a) \<longrightarrow>
      pipeline_call E a s =
        (Inl (ValueError (BadPromptType (type_name (prompt a)))),
         s\<lparr>trace := trace s @ legacy_events E a\<rparr>)) \<and>
   (is_str (prompt a) \<longrightarrow> get_batch_size a = Inr 1) \<and>
   (\<forall>xs. prompt a = PyList xs \<longrightarrow> get_batch_size a = Inr (length xs))"
  using pipeline_call_error[OF denoise_bad_prompt, of a E s]
  by (auto simp: get_batch_size_cases)

theorem prompt_type_check_witness:
  "\<not> is_str (prompt int_prompt) \<and> \<not> is_list (prompt int_prompt) \<and>
   pipeline_call toy_env int_prompt (start_state 0) =
     (Inl (ValueError (BadPromptType ''int'')), start_state 0) \<and>
   is_str (prompt seeded) \<and> get_batch_size seeded = Inr 1 \<and>
   prompt two_prompts = PyList [PyStr ''cat'', PyStr ''dog''] \<and>
   get_batch_size two_prompts = Inr 2"
  using prompt_type_check[of int_prompt toy_env "start_state 0"]
    prompt_type_check[of seeded] prompt_type_check[of two_prompts]
  by (simp add: int_prompt_def seeded_def red_ball_def two_prompts_def legacy_events_def)

theorem prompt_list_of_int_accepted:
  "\<not> is_str (prompt list_of_int_prompt) \<and> \<not> is_list_of_str (prompt list_of_int_prompt) \<and>
   fst (pipeline_call toy_env list_of_int_prompt (start_state 0)) =
     Inr \<lparr>sample = Pil [], nsfw_content_detected = [False]\<rparr> \<and>
   hd (trace (snd (pipeline_call toy_env list_of_int_prompt (start_state 0)))) =
     Tokenizer (PyList [PyInt 1]) 77 True"
  by (simp add: list_of_int_prompt_def toy_simps act_defs phase_defs Let_def)


lemma pure_noise_error:
  assumes "init_image a = None"
  shows "fst (pipeline_call E a s) \<in>
           {Inl (ValueError (BadPromptType (type_name (prompt a)))),
            Inl (ValueError (NotDivisibleBy8 (height a) (width a))),
            Inl IndexError, Inl (UnboundLocalError ''init_timestep'')}"
proof (cases "get_batch_size a")
  case (Inl e)
  then have "\<not> is_str (prompt a)" "\<not> is_list (prompt a)"
    by (auto simp: get_batch_size_cases split: if_splits)
  then show ?thesis using pipeline_call_error[OF denoise_bad_prompt, of a E s] by simp
next
  case (Inr b)
  show ?thesis
  proof (cases "width a mod 8 = 0")
    case True
    obtain r s' where d: "denoise E a s = (r, s')" by (cases "denoise E a s")
    have "r = Inl IndexError \<or> r = Inl (UnboundLocalError ''init_timestep'')"
      using pure_noise_denoise[OF assms Inr True, of E s] d by (auto split: if_splits)
    then show ?thesis using d pipeline_call_error[of E a s _ s'] by auto
  next
    case False
    then show ?thesis using pipeline_call_error[OF denoise_bad_size[OF Inr], of E s] by simp
  qed
qed

lemma pure_noise_unbound:
  assumes "init_image a = None" "is_str (prompt a) \<or> is_list (prompt a)" "width a mod 8 = 0"
    and "\<not> (is_lms (scheduler E) \<and> sigmas (scheduler E) (sched_after_set E a (sched s)) = [])"
  shows "fst (pipeline_call E a s) = Inl (UnboundLocalError ''init_timestep'')"
proof -
  obtain b where b: "get_batch_size a = Inr b"
    using get_batch_size_ok[OF assms(2)] by blast
  obtain r s' where d: "denoise E a s = (r, s')" by (cases "denoise E a s")
  have "r = Inl (UnboundLocalError ''init_timestep'')"
    using pure_noise_denoise[OF assms(1) b assms(3), of E s] d assms(4) by auto
  then show ?thesis using d pipeline_call_error[of E a s _ s'] by auto
qed




text \<open>
  Claim C2, evaluated on the code. Without a seed image and with a height divisible by
  8, the width 100 raises the ValueError for height and width before anything else
  happens: the condition of line 106 is read as
  \<^verbatim>\<open>(init_image is not None and height % 8 != 0) or width % 8 != 0\<close>.
\<close>

theorem width_checked_without_image:
  "init_image narrow = None \<and> height narrow mod 8 = 0 \<and>
   pipeline_call E narrow s = (Inl (ValueError (NotDivisibleBy8 512 100)), s)"
proof -
  have b: "get_batch_size narrow = Inr 1"
    by (simp add: get_batch_size_def narrow_def red_ball_def)
  have w: "(init_image narrow \<noteq> None \<and> height narrow mod 8 \<noteq> 0) \<or> width narrow mod 8 \<noteq> 0"
    by (simp add: narrow_def red_ball_def)
  show ?thesis
    using pipeline_call_error[OF denoise_bad_size[OF b w], of E s]
    by (simp add: narrow_def red_ball_def legacy_events_def)
qed

text \<open>
  Claim C3, evaluated on the code. A call without a seed image never returns: it ends
  with an exception. When the prompt is a string or a list, the width is divisible by 8
  and the scheduler's sigmas can be read, the exception is the UnboundLocalError of line
  219, where \<^verbatim>\<open>init_timestep\<close> is read without having been assigned; the loop does not
  start.
\<close>

theorem pure_noise_never_returns:
  assumes "init_image a = None"
  shows "(\<exists>e. fst (pipeline_call E a s) = Inl e) \<and>
         ((is_str (prompt a) \<or> is_list (prompt a)) \<and> width a mod 8 = 0 \<and>
          \<not> (is_lms (scheduler E) \<and> sigmas (scheduler E) (sched_after_set E a (sched s)) = []) \<longrightarrow>
            fst (pipeline_call E a s) = Inl (UnboundLocalError ''init_timestep''))"
  using pure_noise_error[OF assms, of E s] pure_noise_unbound[OF assms, of E s] by auto

theorem pure_noise_never_returns_witness:
  "init_image red_ball = None \<and> is_str (prompt red_ball) \<and> width red_ball mod 8 = 0 \<and>
   \<not> is_lms (scheduler toy_env) \<and>
   fst (pipeline_call toy_env red_ball (start_state 0)) =
     Inl (UnboundLocalError ''init_timestep'') \<and>
   trace (snd (pipeline_call toy_env red_ball (start_state 0))) =
     [Tokenizer (PyStr ''a red ball'') 77 True, TextEncoder [10],
      Tokenizer (PyList [PyStr []]) 77 False, TextEncoder [0],
      SetTimesteps 50 (Some 1), Randn [1, 4, 64, 64]]"
proof -
  have h: "init_image red_ball = None" by (simp add: red_ball_def)
  have t: "trace (snd (pipeline_call toy_env red_ball (start_state 0))) =
     [Tokenizer (PyStr ''a red ball'') 77 True, TextEncoder [10],
      Tokenizer (PyList [PyStr []]) 77 False, TextEncoder [0],
      SetTimesteps 50 (Some 1), Randn [1, 4, 64, 64]]"
    by (simp add: toy_simps act_defs phase_defs Let_def)
  show ?thesis
    using pure_noise_never_returns[OF h, of toy_env "start_state 0"] h t
    by (simp add: red_ball_def toy_env_fields toy_scheduler_def)
qed

subsection \<open>The starting timestep\<close>










subsection \<open>Determinism\<close>




















lemma denoise_loop_Cons:
  "denoise_loop E a emb t_start i (t # ts) latents =
     bnd (denoise_step E a emb (t_start + i) t latents)
       (\<lambda>latents'. denoise_loop E a emb t_start (i + 1) ts latents')"
  by (rule ext) (simp add: bnd_def)

lemma denoise_loop_Nil: "denoise_loop E a emb t_start i [] latents = ret latents"
  by (rule ext) (simp add: ret_def)








lemma default_generator_matters:
  "fst (denoise toy_env seeded ((start_state 0)\<lparr>gen := None\<rparr>)) \<noteq>
   fst (denoise toy_env seeded ((start_state 5)\<lparr>gen := None\<rparr>))"
  by (simp add: toy_simps act_defs phase_defs Let_def)



subsection \<open>Classifier-free guidance\<close>

lemma steps_from_head:
  "ys = [] \<or> \<not> is_step (hd ys) \<Longrightarrow> steps_from R p ys = steps_from R None ys"
  by (cases ys) (auto split: event.splits)

lemma steps_from_append:
  "steps_from R p xs \<Longrightarrow> steps_from R None ys \<Longrightarrow> ys = [] \<or> \<not> is_step (hd ys) \<Longrightarrow>
     steps_from R p (xs @ ys)"
proof (induction xs arbitrary: p)
  case Nil
  then show ?case using steps_from_head[of ys R p] by simp
next
  case (Cons ev xs)
  then show ?case by (cases ev) (auto split: option.splits)
qed

lemma steps_ok_append:
  "steps_ok R xs \<Longrightarrow> steps_ok R ys \<Longrightarrow> ys = [] \<or> \<not> is_step (hd ys) \<Longrightarrow> steps_ok R (xs @ ys)"
  unfolding steps_ok_def by (rule steps_from_append)

lemma well_stepped_Nil: "well_stepped E a []"
  by (simp add: well_stepped_def steps_ok_def)

lemma well_stepped_append:
  assumes "well_stepped E a xs" "well_stepped E a ys"
  shows "well_stepped E a (xs @ ys)"
proof -
  have h: "(xs @ ys = [] \<or> \<not> is_step (hd (xs @ ys)))"
    using assms by (cases xs) (auto simp: well_stepped_def)
  show ?thesis
    using assms h steps_ok_append[of _ xs ys]
    by (auto simp: well_stepped_def split: if_splits)
qed

lemma append_closed_well_stepped: "append_closed (well_stepped E a)"
  unfolding append_closed_def using well_stepped_Nil well_stepped_append by blast


lemma emits_ret: "Q [] \<Longrightarrow> R x \<Longrightarrow> emits Q R (ret x)"
  by (simp add: emits_def ret_def)

lemma emits_raise: "Q [] \<Longrightarrow> emits Q R (raise e)"
  by (simp add: emits_def raise_def)

lemma emits_lift: "Q [] \<Longrightarrow> (\<And>x. r = Inr x \<Longrightarrow> R x) \<Longrightarrow> emits Q R (lift r)"
  by (simp add: emits_def lift_def)

lemma emits_invoke: "Q [ev] \<Longrightarrow> R r \<Longrightarrow> emits Q R (invoke ev r)"
  by (simp add: emits_def invoke_def)

lemma emits_bnd:
  fixes m :: "('x, 't, 's, 'g) act"
  assumes "append_closed Q" "emits Q R m" "\<And>x. R x \<Longrightarrow> emits Q R' (f x)"
  shows "emits Q R' (bnd m f)"
  unfolding emits_def
proof
  fix s :: "('t, 's, 'g) state"
  obtain r s' where ms: "m s = (r, s')" by (cases "m s")
  obtain evs where e: "trace s' = trace s @ evs" "Q evs" "\<forall>x. r = Inr x \<longrightarrow> R x"
    using assms(2) ms unfolding emits_def by (metis fst_conv snd_conv)
  show "\<exists>evs. trace (snd (bnd m f s)) = trace s @ evs \<and> Q evs \<and>
          (\<forall>x. fst (bnd m f s) = Inr x \<longrightarrow> R' x)"
  proof (cases r)
    case (Inl err)
    then show ?thesis using ms e by (auto simp: bnd_def)
  next
    case (Inr x)
    then have "R x" using e by blast
    from assms(3)[OF this] obtain evs' where
      e': "trace (snd (f x s')) = trace s' @ evs'" "Q evs'"
          "\<forall>y. fst (f x s') = Inr y \<longrightarrow> R' y"
      unfolding emits_def by blast
    have "Q (evs @ evs')" using assms(1) e(2) e'(2) unfolding append_closed_def by blast
    then show ?thesis using ms Inr e e' by (auto simp: bnd_def)
  qed
qed

lemma emits_torch_randn: "Q [Randn shp] \<Longrightarrow> emits Q (\<lambda>_. True) (torch_randn E shp)"
  by (auto simp: emits_def torch_randn_def split: option.splits prod.splits)

lemma emits_scheduler_set_timesteps:
  "Q [SetTimesteps n off] \<Longrightarrow> emits Q (\<lambda>_. True) (scheduler_set_timesteps E n off)"
  by (simp add: emits_def scheduler_set_timesteps_def)

lemma emits_scheduler_timesteps: "Q [] \<Longrightarrow> emits Q (\<lambda>_. True) (scheduler_timesteps E)"
  by (simp add: emits_def scheduler_timesteps_def)

lemma emits_scheduler_sigma: "Q [] \<Longrightarrow> emits Q (\<lambda>_. True) (scheduler_sigma E i)"
  by (simp add: emits_def scheduler_sigma_def)

lemma emits_scheduler_add_noise:
  "Q [AddNoise x noise ts] \<Longrightarrow> emits Q (\<lambda>_. True) (scheduler_add_noise E x noise ts)"
  by (simp add: emits_def scheduler_add_noise_def)

lemma well_stepped_single:
  "\<not> is_step ev \<Longrightarrow> (1 < guidance_scale a \<or> cond_only E a ev) \<Longrightarrow> well_stepped E a [ev]"
  by (cases ev) (auto simp: well_stepped_def steps_ok_def)

lemmas ws = well_stepped_Nil well_stepped_single append_closed_well_stepped

lemma well_stepped_simps:
  "well_stepped E a [] = True"
  "\<not> is_step ev \<Longrightarrow> well_stepped E a (ev # evs) =
     (if 1 < guidance_scale a then steps_ok (guided E a) (ev # evs)
      else steps_ok (unguided E a) (ev # evs) \<and> list_all (cond_only E a) (ev # evs))"
  by (simp_all add: well_stepped_def steps_ok_def)

lemma emits_legacy_device: "emits (well_stepped E a) (\<lambda>_. True) (legacy_device E a)"
  by (auto simp: emits_def legacy_device_def act_defs well_stepped_simps steps_ok_def
      split: option.splits)

lemma emits_encode_prompt:
  assumes "get_batch_size a = Inr b"
  shows "emits (well_stepped E a) (\<lambda>x. x = prompt_embeddings E a) (encode_prompt E a b)"
  using assms
  by (auto simp: emits_def encode_prompt_def Let_def act_defs well_stepped_simps steps_ok_def
      prompt_embeddings_def cond_embeddings_def uncond_embeddings_def batch_size_of_def)

lemma emits_set_scheduler_timesteps:
  "emits (well_stepped E a) (\<lambda>_. True) (set_scheduler_timesteps E a)"
  by (auto simp: emits_def set_scheduler_timesteps_def act_defs well_stepped_simps steps_ok_def)

lemma emits_prepare_latents:
  "emits (well_stepped E a) (\<lambda>_. True) (prepare_latents E a b off)"
  by (auto simp: emits_def prepare_latents_def Let_def act_defs well_stepped_simps steps_ok_def
      split: option.splits init_image.splits sum.splits prod.splits)

lemma emits_denoise_step:
  "emits (well_stepped E a) (\<lambda>_. True)
     (denoise_step E a (prompt_embeddings E a) ti t latents)"
  by (auto simp: emits_def denoise_step_def Let_def act_defs well_stepped_simps steps_ok_def
      prompt_embeddings_def guided_def unguided_def
      split: option.splits sum.splits prod.splits list.splits)

lemma emits_decode: "emits (well_stepped E a) (\<lambda>_. True) (decode E a latents)"
  by (auto simp: emits_def decode_def Let_def act_defs well_stepped_simps steps_ok_def
      split: prod.splits)


lemma emits_denoise_loop:
  "emits (well_stepped E a) (\<lambda>_. True)
     (denoise_loop E a (prompt_embeddings E a) t_start i ts latents)"
proof (induction ts arbitrary: i latents)
  case Nil
  show ?case unfolding denoise_loop_Nil by (rule emits_ret) (simp_all add: well_stepped_Nil)
next
  case (Cons t ts)
  show ?case unfolding denoise_loop_Cons
    by (rule emits_bnd[OF append_closed_well_stepped emits_denoise_step]) (rule Cons.IH)
qed

lemma emits_lift_well_stepped:
  "(\<And>x. r = Inr x \<Longrightarrow> R x) \<Longrightarrow> emits (well_stepped E a) R (lift r)"
  by (rule emits_lift) (simp_all add: well_stepped_Nil)

lemma emits_denoise: "emits (well_stepped E a) (\<lambda>_. True) (denoise E a)"
  unfolding denoise_def
  apply (rule emits_bnd[OF append_closed_well_stepped emits_legacy_device])
  apply (rule emits_bnd[OF append_closed_well_stepped
        emits_lift_well_stepped[where R="\<lambda>b. get_batch_size a = Inr b"]])
   apply assumption
  apply (rule emits_bnd[OF append_closed_well_stepped
        emits_lift_well_stepped[where R="\<lambda>_. True"]])
   apply simp
  apply (rule emits_bnd[OF append_closed_well_stepped
        emits_lift_well_stepped[where R="\<lambda>_. True"]])
   apply simp
  apply (rule emits_bnd[OF append_closed_well_stepped emits_encode_prompt])
   apply assumption
  apply (rule emits_bnd[OF append_closed_well_stepped emits_set_scheduler_timesteps])
  apply (rule emits_bnd[OF append_closed_well_stepped emits_prepare_latents])
  apply (simp split: prod.splits)
  apply (intro allI impI)
  apply (rule emits_bnd[OF append_closed_well_stepped
        emits_lift_well_stepped[where R="\<lambda>_. True"]])
   apply simp
  apply (rule emits_bnd[OF append_closed_well_stepped emits_scheduler_timesteps])
   apply (rule well_stepped_Nil)
  apply (rule emits_denoise_loop)
  done

lemma emits_pipeline_call: "emits (well_stepped E a) (\<lambda>_. True) (pipeline_call E a)"
  unfolding pipeline_call_def
  by (rule emits_bnd[OF append_closed_well_stepped emits_denoise]) (rule emits_decode)

text \<open>
  Claim C1. The events that a call appends to the record satisfy: if the guidance scale
  is greater than 1, every scheduler step comes right after one call of the predictor
  on the embeddings [unconditional; conditional] (unconditional first), the output of
  that call splits in two halves, and the noise prediction handed to the step is
  \<open>uncond + guidance_scale * (cond - uncond)\<close>; if the guidance scale is at most 1, every
  step is handed the raw output of a predictor call on the conditional embeddings, and
  the only calls of the tokenizer and the text encoder are those for the prompt itself:
  no unconditional embedding is computed or used.
\<close>

theorem guidance_combination:
  "\<exists>evs. trace (snd (pipeline_call E a s)) = trace s @ evs \<and>
     (1 < guidance_scale a \<longrightarrow> steps_ok (guided E a) evs) \<and>
     (guidance_scale a \<le> 1 \<longrightarrow>
        steps_ok (unguided E a) evs \<and> list_all (cond_only E a) evs)"
  using emits_pipeline_call[of E a] unfolding emits_def well_stepped_def
  by (metis not_less)

lemma seeded_steps:
  "length (filter is_step (trace (snd (pipeline_call toy_env seeded (start_state 0))))) = 3"
  by (simp add: toy_simps act_defs phase_defs Let_def)

lemma unguided_steps:
  "length (filter is_step
     (trace (snd (pipeline_call toy_env unguided_seeded (start_state 0))))) = 3"
  by (simp add: unguided_seeded_def toy_simps act_defs phase_defs Let_def)

theorem guidance_combination_witness:
  "1 < guidance_scale seeded \<and>
   (\<exists>evs. trace (snd (pipeline_call toy_env seeded (start_state 0))) =
            trace (start_state 0) @ evs \<and>
          steps_ok (guided toy_env seeded) evs \<and> length (filter is_step evs) = 3) \<and>
   guidance_scale unguided_seeded \<le> 1 \<and>
   (\<exists>evs. trace (snd (pipeline_call toy_env unguided_seeded (start_state 0))) =
            trace (start_state 0) @ evs \<and>
          steps_ok (unguided toy_env unguided_seeded) evs \<and>
          list_all (cond_only toy_env unguided_seeded) evs \<and>
          length (filter is_step evs) = 3)"
proof -
  have g: "1 < guidance_scale seeded" by (simp add: seeded_def red_ball_def)
  have u: "guidance_scale unguided_seeded \<le> 1"
    by (simp add: unguided_seeded_def seeded_def red_ball_def)
  have e: "trace (start_state 0) = []" by (simp add: start_state_def)
  obtain evs where 1: "trace (snd (pipeline_call toy_env seeded (start_state 0))) =
        trace (start_state 0) @ evs" "steps_ok (guided toy_env seeded) evs"
    using guidance_combination[of toy_env seeded "start_state 0"] g by blast
  obtain evs' where 2: "trace (snd (pipeline_call toy_env unguided_seeded (start_state 0))) =
        trace (start_state 0) @ evs'" "steps_ok (unguided toy_env unguided_seeded) evs'"
      "list_all (cond_only toy_env unguided_seeded) evs'"
    using guidance_combination[of toy_env unguided_seeded "start_state 0"] u by blast
  have "length (filter is_step evs) = 3" using 1(1) e seeded_steps by simp
  moreover have "length (filter is_step evs') = 3" using 2(1) e unguided_steps by simp
  ultimately show ?thesis using g u 1 2 by blast
qed

end
